theory Spec2Isabelle
  imports Main
begin

section \<open>Values of the host language\<close>

text \<open>
  The sources are TypeScript. Text is modelled as \<^typ>\<open>string\<close>; a character stands for
  a code unit in the range 0 to 255. A value whose static type is \<open>any\<close> (the body of an
  HTTP response) is a \<open>jsval\<close>; an object is the association list of its own properties,
  each name once, and a number is an integer.
\<close>

datatype jsval =
    JUndefined
  | JNull
  | JBool bool
  | JNum int
  | JStr string
  | JArr "jsval list"
  | JObj "(string \<times> jsval) list"

datatype exn = AxiosError string | TypeError

text \<open>\<open>s.startsWith(p)\<close>.\<close>

definition startsWith :: "string \<Rightarrow> string \<Rightarrow> bool" where
  "startsWith s p = (take (length p) s = p)"

text \<open>
  \<open>s.trim()\<close> removes white space and line terminators from both ends. In the range of
  \<^typ>\<open>char\<close> these are TAB, LF, VT, FF, CR, SPACE and NO-BREAK SPACE.
\<close>

definition isWhiteSpace :: "char \<Rightarrow> bool" where
  "isWhiteSpace c = (c \<in> set [CHR 0x09, CHR 0x0A, CHR 0x0B, CHR 0x0C, CHR 0x0D, CHR 0x20, CHR 0xA0])"

definition trim :: "string \<Rightarrow> string" where
  "trim s = rev (dropWhile isWhiteSpace (rev (dropWhile isWhiteSpace s)))"

section \<open>The login gate and the \<open>authorized\<close> callbacks\<close>

datatype user = User (user_id: string)

datatype session = Session (user: "user option")

record url =
  origin :: string
  pathname :: string

record request =
  auth :: "session option"
  nextUrl :: url

datatype response = Response (status: nat) (location: string)

text \<open>
  \<open>new URL(path, base)\<close> for an absolute path and a base that is an origin
  (\<open>scheme://host[:port]\<close>): the origin of the base with the given path.
\<close>

definition new_URL :: "string \<Rightarrow> string \<Rightarrow> url" where
  "new_URL path base = \<lparr>origin = base, pathname = path\<rparr>"

definition href :: "url \<Rightarrow> string" where
  "href u = origin u @ pathname u"

text \<open>\<open>Response.redirect(url)\<close>: status 302 with the URL as \<open>Location\<close>.\<close>

definition Response_redirect :: "url \<Rightarrow> response" where
  "Response_redirect u = Response 302 (href u)"

text \<open>
  The handler of \<^verbatim>\<open>src/middleware.ts\<close>. \<open>None\<close> is the \<open>undefined\<close> it returns when it
  falls off its end; \<open>!!req.auth\<close> is true exactly when the session object is there.
\<close>

definition middleware :: "request \<Rightarrow> response option" where
  "middleware req =
     (let isLoggedIn = (auth req \<noteq> None);
          isOnChat = startsWith (pathname (nextUrl req)) ''/''
      in if isOnChat \<and> \<not> isLoggedIn
         then (let newUrl = new_URL ''/login'' (origin (nextUrl req))
               in Some (Response_redirect newUrl))
         else None)"

text \<open>
  \<open>config.matcher\<close> is the pattern
  \<^verbatim>\<open>/((?!api|_next/static|_next/image|favicon.ico|logo.png).*)\<close>
  matched against the whole path: a slash, then a rest that begins with none of the
  five alternatives. A dot of the pattern stands for any character but a line
  terminator.
\<close>

datatype atom = Lit char | Dot

definition isLineTerminator :: "char \<Rightarrow> bool" where
  "isLineTerminator c = (c = CHR 0x0A \<or> c = CHR 0x0D)"

fun atom_matches :: "atom \<Rightarrow> char \<Rightarrow> bool" where
  "atom_matches (Lit a) c = (a = c)"
| "atom_matches Dot c = (\<not> isLineTerminator c)"

fun lookahead :: "atom list \<Rightarrow> string \<Rightarrow> bool" where
  "lookahead [] s = True"
| "lookahead (a # as) [] = False"
| "lookahead (a # as) (c # cs) = (atom_matches a c \<and> lookahead as cs)"

definition excluded :: "atom list list" where
  "excluded =
     [map Lit ''api'',
      map Lit ''_next/static'',
      map Lit ''_next/image'',
      map Lit ''favicon'' @ [Dot] @ map Lit ''ico'',
      map Lit ''logo'' @ [Dot] @ map Lit ''png'']"

fun matcher :: "string \<Rightarrow> bool" where
  "matcher [] = False"
| "matcher (c # rest) =
     (c = CHR ''/'' \<and> \<not> list_ex (\<lambda>alt. lookahead alt rest) excluded
        \<and> list_all (atom_matches Dot) rest)"

text \<open>
  The \<open>authorized\<close> callback of \<^verbatim>\<open>src/unnamed/part_000\<close>, on the session and
  the URL of the request. \<open>!!auth?.user\<close> is true exactly when there is a session and it
  has a user.
\<close>

definition authorized_000 :: "session option \<Rightarrow> url \<Rightarrow> bool" where
  "authorized_000 a u =
     (let isLoggedIn = (case a of None \<Rightarrow> False | Some s \<Rightarrow> user s \<noteq> None);
          isOnChat = startsWith (pathname u) ''/''
      in if isOnChat then isLoggedIn else True)"

text \<open>The \<open>authorized\<close> callback of \<^verbatim>\<open>src/unnamed/part_006\<close>.\<close>

definition authorized_006 :: "session option \<Rightarrow> url \<Rightarrow> bool" where
  "authorized_006 a u =
     (let isLoggedIn = (case a of None \<Rightarrow> False | Some s \<Rightarrow> user s \<noteq> None);
          isOnChat = startsWith (pathname u) ''/''
      in if isOnChat \<and> \<not> isLoggedIn then False else True)"

section \<open>The chat page\<close>

text \<open>The component \<open>ChatPage\<close> of \<^verbatim>\<open>src/unnamed/part_001\<close>.\<close>

subsection \<open>State and effects\<close>

text \<open>An entry of the message list, \<open>{ role, content }\<close>.\<close>

record msg =
  role :: string
  content :: jsval

text \<open>The four \<open>useState\<close> cells of \<open>ChatPage\<close>, with their initial values.\<close>

record chat_state =
  messages :: "msg list"
  input :: string
  isLoading :: bool
  error :: "string option"

definition initial_state :: chat_state where
  "initial_state = \<lparr>messages = [], input = [], isLoading = False, error = None\<rparr>"

text \<open>The JSON document posted to the chat endpoint, and the call that posts it.\<close>

record chat_body =
  message :: string
  model :: string

record post_request =
  post_url :: string
  post_data :: chat_body

text \<open>
  \<open>API_URL\<close> is \<open>process.env.NEXT_PUBLIC_API_URL || "http://localhost:8000/api"\<close>;
  the environment variable is a parameter. An unset variable and the empty string are
  both falsy.
\<close>

definition API_URL :: "string option \<Rightarrow> string" where
  "API_URL env =
     (case env of
        None \<Rightarrow> ''http://localhost:8000/api''
      | Some v \<Rightarrow> if v = [] then ''http://localhost:8000/api'' else v)"

text \<open>
  What a handler does, in the order in which it does it: calls of the state setters
  (\<open>AppendMessage m\<close> is \<open>setMessages((prev) => [...prev, m])\<close>, \<open>SetMessages ms\<close> is
  \<open>setMessages(ms)\<close>), the HTTP call, and the calls on the event and on the console.
\<close>

datatype effect =
    PreventDefault
  | SetInput string
  | SetIsLoading bool
  | SetError "string option"
  | AppendMessage msg
  | SetMessages "msg list"
  | AxiosPost post_request
  | ConsoleError exn

fun apply_effect :: "effect \<Rightarrow> chat_state \<Rightarrow> chat_state" where
  "apply_effect PreventDefault s = s"
| "apply_effect (SetInput v) s = s\<lparr>input := v\<rparr>"
| "apply_effect (SetIsLoading b) s = s\<lparr>isLoading := b\<rparr>"
| "apply_effect (SetError e) s = s\<lparr>error := e\<rparr>"
| "apply_effect (AppendMessage m) s = s\<lparr>messages := messages s @ [m]\<rparr>"
| "apply_effect (SetMessages ms) s = s\<lparr>messages := ms\<rparr>"
| "apply_effect (AxiosPost r) s = s"
| "apply_effect (ConsoleError e) s = s"

definition run_effects :: "effect list \<Rightarrow> chat_state \<Rightarrow> chat_state" where
  "run_effects es s = fold apply_effect es s"

text \<open>The HTTP calls and the appended messages among a handler's effects.\<close>

fun posts :: "effect list \<Rightarrow> post_request list" where
  "posts [] = []"
| "posts (AxiosPost r # es) = r # posts es"
| "posts (e # es) = posts es"

fun appended :: "effect list \<Rightarrow> msg list" where
  "appended [] = []"
| "appended (AppendMessage m # es) = m # appended es"
| "appended (e # es) = appended es"

subsection \<open>\<open>handleSubmit\<close> and \<open>handleClear\<close>\<close>

text \<open>
  The promise of \<open>axios.post\<close> resolves with a response, of which the handler reads
  \<open>data\<close>, or rejects with an error.
\<close>

datatype outcome = Resolved jsval | Rejected exn

text \<open>
  \<open>response.data.response\<close>: reading a property of \<open>null\<close> or \<open>undefined\<close> throws;
  an object gives the property or \<open>undefined\<close>; a primitive value or an array has no
  property of that name.
\<close>

fun read_response :: "jsval \<Rightarrow> exn + jsval" where
  "read_response JUndefined = Inl TypeError"
| "read_response JNull = Inl TypeError"
| "read_response (JObj ps) =
     Inr (case map_of ps ''response'' of None \<Rightarrow> JUndefined | Some v \<Rightarrow> v)"
| "read_response d = Inr JUndefined"

text \<open>Lines 23 to 39: from the start of \<open>handleSubmit\<close> to the \<open>await\<close>.\<close>

definition handleSubmit_sync :: "string option \<Rightarrow> chat_state \<Rightarrow> effect list" where
  "handleSubmit_sync env s =
     PreventDefault #
     (if trim (input s) = [] then []
      else (let userMessage = trim (input s)
            in [SetInput [],
                SetIsLoading True,
                SetError None,
                AppendMessage \<lparr>role = ''user'', content = JStr userMessage\<rparr>,
                AxiosPost \<lparr>post_url = API_URL env @ ''/chat'',
                           post_data = \<lparr>message = userMessage, model = ''mistral''\<rparr>\<rparr>]))"

text \<open>Lines 43 to 52: the \<open>catch\<close> block, followed by the \<open>finally\<close> block.\<close>

definition catch_finally :: "exn \<Rightarrow> effect list" where
  "catch_finally err =
     [ConsoleError err,
      SetError (Some ''Failed to get response. Please check your connection.''),
      AppendMessage
        \<lparr>role = ''assistant'',
         content = JStr ''I'm having trouble connecting to the AI service. Please try again later.''\<rparr>,
      SetIsLoading False]"

text \<open>
  Lines 41 to 52: what runs once the promise has settled. An exception of line 41 is
  caught by the same \<open>catch\<close> as a rejection.
\<close>

definition handleSubmit_resume :: "outcome \<Rightarrow> effect list" where
  "handleSubmit_resume oc =
     (case oc of
        Rejected err \<Rightarrow> catch_finally err
      | Resolved d \<Rightarrow>
          (case read_response d of
             Inl err \<Rightarrow> catch_finally err
           | Inr aiResponse \<Rightarrow>
               [AppendMessage \<lparr>role = ''assistant'', content = aiResponse\<rparr>,
                SetIsLoading False]))"

text \<open>One whole invocation whose request, if one is made, settles with \<open>oc\<close>.\<close>

definition handleSubmit :: "string option \<Rightarrow> chat_state \<Rightarrow> outcome \<Rightarrow> effect list" where
  "handleSubmit env s oc =
     (if trim (input s) = [] then handleSubmit_sync env s
      else handleSubmit_sync env s @ handleSubmit_resume oc)"

definition handleClear :: "effect list" where
  "handleClear = [SetMessages [], SetError None]"

text \<open>
  The words of the specification, "the \<open>response\<close> field of the HTTP response body",
  as a function of the body: the property of that name of an object, and \<open>undefined\<close>
  where there is none. It is compared with what \<open>handleSubmit\<close> appends.
\<close>

definition response_field :: "jsval \<Rightarrow> jsval" where
  "response_field d =
     (case d of
        JObj ps \<Rightarrow> (case map_of ps ''response'' of None \<Rightarrow> JUndefined | Some v \<Rightarrow> v)
      | _ \<Rightarrow> JUndefined)"

subsection \<open>What is rendered\<close>

text \<open>
  \<open>msg.content.split("\n")\<close>, one paragraph for each piece. The call throws when the
  content is not a string.
\<close>

fun split_newline :: "string \<Rightarrow> string list" where
  "split_newline [] = [[]]"
| "split_newline (c # cs) =
     (if c = CHR 0x0A then [] # split_newline cs
      else (case split_newline cs of
              [] \<Rightarrow> [[c]]
            | l # ls \<Rightarrow> (c # l) # ls))"

fun join_newline :: "string list \<Rightarrow> string" where
  "join_newline [] = []"
| "join_newline [l] = l"
| "join_newline (l # ls) = l @ CHR 0x0A # join_newline ls"

fun render_content :: "jsval \<Rightarrow> exn + string list" where
  "render_content (JStr t) = Inr (split_newline t)"
| "render_content v = Inl TypeError"

text \<open>The \<open>disabled\<close> attributes of the text input (line 165) and of the Send button (line 169).\<close>

definition input_disabled :: "chat_state \<Rightarrow> bool" where
  "input_disabled s = isLoading s"

definition send_disabled :: "chat_state \<Rightarrow> bool" where
  "send_disabled s = (trim (input s) = [] \<or> isLoading s)"

subsection \<open>The page as a transition system\<close>

text \<open>
  One mounted instance of the page: the state from which it was last rendered, the
  state cells as they are now, and the requests that have been sent and have not
  settled. The handlers of a render close over the values of that render, and the
  \<open>disabled\<close> attributes in the document are those of that render, until the page is
  rendered again.

  An event is a render, a change of the text input, a submission of the form, a click
  on Clear Chat, or one of the outstanding requests settling. A step runs the handler
  of the event: \<open>handleSubmit\<close> reads \<open>input\<close> from the render and has no test of
  \<open>isLoading\<close>; the setters act on the state cells. Which events the browser delivers
  is not part of the step; it is said by the conditions on runs below. A step that
  cannot be taken (no such outstanding request) is \<open>None\<close>.
\<close>

record page =
  rendered :: chat_state
  ui :: chat_state
  pending :: "post_request list"

definition initial_page :: page where
  "initial_page = \<lparr>rendered = initial_state, ui = initial_state, pending = []\<rparr>"

datatype event = Render | Change string | Submit | Clear | Settle nat outcome

fun step :: "string option \<Rightarrow> event \<Rightarrow> page \<Rightarrow> page option" where
  "step env Render p = Some (p\<lparr>rendered := ui p\<rparr>)"
| "step env (Change v) p = Some (p\<lparr>ui := run_effects [SetInput v] (ui p)\<rparr>)"
| "step env Submit p =
     Some (p\<lparr>ui := run_effects (handleSubmit_sync env (rendered p)) (ui p),
             pending := pending p @ posts (handleSubmit_sync env (rendered p))\<rparr>)"
| "step env Clear p = Some (p\<lparr>ui := run_effects handleClear (ui p)\<rparr>)"
| "step env (Settle i oc) p =
     (if i < length (pending p)
      then Some (p\<lparr>ui := run_effects (handleSubmit_resume oc) (ui p),
                   pending := take i (pending p) @ drop (Suc i) (pending p)\<rparr>)
      else None)"

fun run :: "string option \<Rightarrow> event list \<Rightarrow> page \<Rightarrow> page option" where
  "run env [] p = Some p"
| "run env (e # es) p = (case step env e p of None \<Rightarrow> None | Some p' \<Rightarrow> run env es p')"

text \<open>A run in which every event meets a page that satisfies the condition \<open>G\<close>.\<close>

fun guarded :: "(event \<Rightarrow> page \<Rightarrow> bool) \<Rightarrow> string option \<Rightarrow> event list \<Rightarrow> page \<Rightarrow> bool" where
  "guarded G env [] p = True"
| "guarded G env (e # es) p =
     (G e p \<and> (case step env e p of None \<Rightarrow> True | Some p' \<Rightarrow> guarded G env es p'))"

text \<open>
  A user can submit the form of a render through a control that is enabled in it:
  Enter in the text input, or the Send button.
\<close>

definition user_can_submit :: "chat_state \<Rightarrow> bool" where
  "user_can_submit s = (\<not> input_disabled s \<or> \<not> send_disabled s)"

text \<open>Every submission comes through an enabled control of the page as last rendered.\<close>

definition enabled_submit :: "event \<Rightarrow> page \<Rightarrow> bool" where
  "enabled_submit e p = (if e = Submit then user_can_submit (rendered p) else True)"

text \<open>
  Every submission comes through an enabled control of a page that was rendered with
  the value that \<open>isLoading\<close> has now.
\<close>

definition fresh_submit :: "event \<Rightarrow> page \<Rightarrow> bool" where
  "fresh_submit e p =
     (if e = Submit
      then isLoading (rendered p) = isLoading (ui p) \<and> user_can_submit (rendered p)
      else True)"

text \<open>
  \<open>handleSubmit\<close> and \<open>handleClear\<close> are invoked only while no request is outstanding,
  so that every \<open>handleSubmit\<close> has finished before the next handler starts.
\<close>

definition one_at_a_time :: "event \<Rightarrow> page \<Rightarrow> bool" where
  "one_at_a_time e p = (if e = Submit \<or> e = Clear then pending p = [] else True)"

text \<open>The message list is a sequence of pairs of a user message and an assistant message.\<close>

fun alternates :: "msg list \<Rightarrow> bool" where
  "alternates [] = True"
| "alternates [m] = False"
| "alternates (m # m' # ms) = (role m = ''user'' \<and> role m' = ''assistant'' \<and> alternates ms)"

section \<open>Properties of the login gate\<close>

lemma matcher_startsWith: "matcher p \<Longrightarrow> startsWith p ''/''"
  by (cases p) (simp_all add: startsWith_def)

text \<open>
  C8: for every pair of a session and a URL, the \<open>authorized\<close> callback of
  \<^verbatim>\<open>src/unnamed/part_000\<close> and the one of \<^verbatim>\<open>src/unnamed/part_006\<close> return the
  same boolean.
\<close>

theorem authorized_callbacks_agree:
  "authorized_000 a u = authorized_006 a u"
  by (simp add: authorized_000_def authorized_006_def Let_def)

text \<open>
  C1: for a request that the matcher selects, the handler answers with a redirect to
  \<open>/login\<close> at the origin of the request when the session is absent, and returns
  \<open>undefined\<close> when the session is present.
\<close>

theorem middleware_login_gate:
  assumes "matcher (pathname (nextUrl req))"
  shows "(auth req = None \<longrightarrow>
            middleware req = Some (Response 302 (origin (nextUrl req) @ ''/login'')))
       \<and> (auth req \<noteq> None \<longrightarrow> middleware req = None)"
  using matcher_startsWith [OF assms]
  by (simp add: middleware_def Let_def Response_redirect_def href_def new_URL_def)

theorem middleware_login_gate_witness:
  "matcher ''/chat''
   \<and> middleware \<lparr>auth = None, nextUrl = \<lparr>origin = ''https://gmg.test'', pathname = ''/chat''\<rparr>\<rparr>
       = Some (Response 302 ''https://gmg.test/login'')
   \<and> middleware \<lparr>auth = Some (Session (Some (User ''u1''))),
                  nextUrl = \<lparr>origin = ''https://gmg.test'', pathname = ''/chat''\<rparr>\<rparr> = None"
proof -
  have m: "matcher ''/chat''"
    by (simp add: excluded_def isLineTerminator_def)
  show ?thesis
    using m
      middleware_login_gate [of "\<lparr>auth = None, nextUrl = \<lparr>origin = ''https://gmg.test'', pathname = ''/chat''\<rparr>\<rparr>"]
      middleware_login_gate [of "\<lparr>auth = Some (Session (Some (User ''u1''))),
                  nextUrl = \<lparr>origin = ''https://gmg.test'', pathname = ''/chat''\<rparr>\<rparr>"]
    by simp
qed

section \<open>Properties of the chat page\<close>

subsection \<open>Effects of the handlers\<close>

lemma run_effects_Nil [simp]: "run_effects [] s = s"
  by (simp add: run_effects_def)

lemma run_effects_Cons [simp]: "run_effects (e # es) s = run_effects es (apply_effect e s)"
  by (simp add: run_effects_def)

lemma run_effects_append: "run_effects (es @ fs) s = run_effects fs (run_effects es s)"
  by (simp add: run_effects_def)

lemma posts_append: "posts (es @ fs) = posts es @ posts fs"
  by (induction es rule: posts.induct) simp_all

lemma appended_append: "appended (es @ fs) = appended es @ appended fs"
  by (induction es rule: appended.induct) simp_all

lemma posts_resume: "posts (handleSubmit_resume oc) = []"
  by (cases oc) (simp_all add: handleSubmit_resume_def catch_finally_def split: sum.splits)

lemma posts_sync:
  "posts (handleSubmit_sync env s) =
     (if trim (input s) = [] then []
      else [\<lparr>post_url = API_URL env @ ''/chat'',
             post_data = \<lparr>message = trim (input s), model = ''mistral''\<rparr>\<rparr>])"
  by (simp add: handleSubmit_sync_def Let_def)

lemma appended_sync:
  "appended (handleSubmit_sync env s) =
     (if trim (input s) = [] then []
      else [\<lparr>role = ''user'', content = JStr (trim (input s))\<rparr>])"
  by (simp add: handleSubmit_sync_def Let_def)

lemma state_sync:
  "run_effects (handleSubmit_sync env s) s =
     (if trim (input s) = [] then s
      else \<lparr>messages = messages s @ [\<lparr>role = ''user'', content = JStr (trim (input s))\<rparr>],
            input = [], isLoading = True, error = None\<rparr>)"
  by (simp add: handleSubmit_sync_def Let_def)

lemma resume_isLoading: "isLoading (run_effects (handleSubmit_resume oc) t) = False"
  by (cases oc) (simp_all add: handleSubmit_resume_def catch_finally_def split: sum.splits)

lemma resume_messages:
  "\<exists>c. messages (run_effects (handleSubmit_resume oc) t) =
         messages t @ [\<lparr>role = ''assistant'', content = c\<rparr>]"
  by (cases oc) (simp_all add: handleSubmit_resume_def catch_finally_def split: sum.splits)

lemma appended_resume:
  "map role (appended (handleSubmit_resume oc)) = [''assistant'']"
  by (cases oc) (simp_all add: handleSubmit_resume_def catch_finally_def split: sum.splits)

lemma messages_run_effects_resume:
  "messages (run_effects (handleSubmit_resume oc) t) = messages t @ appended (handleSubmit_resume oc)"
  by (cases oc) (simp_all add: handleSubmit_resume_def catch_finally_def split: sum.splits)

lemma trim_hi: "trim ''hi'' = ''hi''"
  by (simp add: trim_def isWhiteSpace_def)

lemma trim_padded: "trim '' hi '' = ''hi''"
  by (simp add: trim_def isWhiteSpace_def)

lemma trim_blank: "trim ''  '' = []"
  by (simp add: trim_def isWhiteSpace_def)

lemma join_split_newline: "join_newline (split_newline t) = t"
proof (induction t)
  case Nil
  then show ?case by simp
next
  case (Cons c cs)
  then show ?case
    by (cases "split_newline cs"; cases "tl (split_newline cs)") (auto split: list.splits)
qed

lemma read_response_field:
  "d \<noteq> JNull \<Longrightarrow> d \<noteq> JUndefined \<Longrightarrow> read_response d = Inr (response_field d)"
  by (cases d) (simp_all add: response_field_def)

subsection \<open>One invocation of \<open>handleSubmit\<close>\<close>

text \<open>
  C2: when the input trims to a non-empty text and the POST is rejected with \<open>err\<close>,
  \<open>handleSubmit\<close> catches the error (it is logged, nothing escapes), sets the error
  state to the connection message, appends exactly one assistant message, the one
  saying that the service cannot be reached, sets \<open>isLoading\<close> to false, and the user
  message appended before the request is still in the list. The last conjunct is the
  part after the \<open>await\<close> on any state \<open>t\<close> of the page at that moment: every message
  of \<open>t\<close> is kept.
\<close>

theorem handleSubmit_failure:
  assumes "trim (input s) \<noteq> []"
  shows "ConsoleError err \<in> set (handleSubmit env s (Rejected err))
     \<and> error (run_effects (handleSubmit env s (Rejected err)) s)
         = Some ''Failed to get response. Please check your connection.''
     \<and> filter (\<lambda>m. role m = ''assistant'') (appended (handleSubmit env s (Rejected err)))
         = [\<lparr>role = ''assistant'',
             content = JStr ''I'm having trouble connecting to the AI service. Please try again later.''\<rparr>]
     \<and> isLoading (run_effects (handleSubmit env s (Rejected err)) s) = False
     \<and> messages (run_effects (handleSubmit env s (Rejected err)) s)
         = messages s @
           [\<lparr>role = ''user'', content = JStr (trim (input s))\<rparr>,
            \<lparr>role = ''assistant'',
             content = JStr ''I'm having trouble connecting to the AI service. Please try again later.''\<rparr>]
     \<and> messages (run_effects (handleSubmit_resume (Rejected err)) t)
         = messages t @
           [\<lparr>role = ''assistant'',
             content = JStr ''I'm having trouble connecting to the AI service. Please try again later.''\<rparr>]"
  using assms
  by (simp add: handleSubmit_def handleSubmit_sync_def handleSubmit_resume_def catch_finally_def Let_def)

theorem handleSubmit_failure_witness:
  "trim (input (initial_state\<lparr>input := '' hi ''\<rparr>)) \<noteq> []
   \<and> run_effects (handleSubmit None (initial_state\<lparr>input := '' hi ''\<rparr>) (Rejected (AxiosError ''Network Error'')))
        (initial_state\<lparr>input := '' hi ''\<rparr>)
      = \<lparr>messages =
           [\<lparr>role = ''user'', content = JStr ''hi''\<rparr>,
            \<lparr>role = ''assistant'',
             content = JStr ''I'm having trouble connecting to the AI service. Please try again later.''\<rparr>],
         input = [], isLoading = False,
         error = Some ''Failed to get response. Please check your connection.''\<rparr>"
proof -
  have h: "trim (input (initial_state\<lparr>input := '' hi ''\<rparr>)) \<noteq> []"
    by (simp add: trim_padded)
  show ?thesis
    using h handleSubmit_failure [OF h, of "AxiosError ''Network Error''" None initial_state]
    by (simp add: handleSubmit_def handleSubmit_sync_def handleSubmit_resume_def catch_finally_def
        initial_state_def trim_padded Let_def)
qed

text \<open>
  C3: when the input trims to a non-empty text, one invocation of \<open>handleSubmit\<close> issues
  exactly one POST, to \<open>API_URL\<close> followed by \<open>/chat\<close>, with the trimmed input as
  \<open>message\<close> and \<open>mistral\<close> as \<open>model\<close>, and appends exactly two messages, a user
  message and then an assistant message, whatever the outcome \<open>oc\<close> of the request.
\<close>

theorem handleSubmit_one_post_two_messages:
  assumes "trim (input s) \<noteq> []"
  shows "posts (handleSubmit env s oc)
           = [\<lparr>post_url = API_URL env @ ''/chat'',
               post_data = \<lparr>message = trim (input s), model = ''mistral''\<rparr>\<rparr>]
     \<and> length (appended (handleSubmit env s oc)) = 2
     \<and> map role (appended (handleSubmit env s oc)) = [''user'', ''assistant'']
     \<and> messages (run_effects (handleSubmit env s oc) s)
           = messages s @ appended (handleSubmit env s oc)"
proof -
  have "map role (appended (handleSubmit env s oc)) = [''user'', ''assistant'']"
    using assms by (simp add: handleSubmit_def appended_append appended_sync appended_resume)
  moreover from this
  have "length (map role (appended (handleSubmit env s oc))) = length [''user'', ''assistant'']"
    by (rule arg_cong)
  then have "length (appended (handleSubmit env s oc)) = 2"
    by simp
  moreover have "posts (handleSubmit env s oc)
           = [\<lparr>post_url = API_URL env @ ''/chat'',
               post_data = \<lparr>message = trim (input s), model = ''mistral''\<rparr>\<rparr>]"
    using assms by (simp add: handleSubmit_def posts_append posts_sync posts_resume)
  moreover have "messages (run_effects (handleSubmit env s oc) s)
           = messages s @ appended (handleSubmit env s oc)"
    using assms
    by (simp add: handleSubmit_def run_effects_append state_sync appended_append appended_sync
        messages_run_effects_resume)
  ultimately show ?thesis by simp
qed

theorem handleSubmit_one_post_two_messages_witness:
  "trim (input (initial_state\<lparr>input := ''hi''\<rparr>)) \<noteq> []
   \<and> posts (handleSubmit None (initial_state\<lparr>input := ''hi''\<rparr>) (Resolved (JObj [(''response'', JStr ''hello'')])))
      = [\<lparr>post_url = ''http://localhost:8000/api/chat'',
          post_data = \<lparr>message = ''hi'', model = ''mistral''\<rparr>\<rparr>]
   \<and> appended (handleSubmit None (initial_state\<lparr>input := ''hi''\<rparr>) (Resolved (JObj [(''response'', JStr ''hello'')])))
      = [\<lparr>role = ''user'', content = JStr ''hi''\<rparr>, \<lparr>role = ''assistant'', content = JStr ''hello''\<rparr>]"
proof -
  have h: "trim (input (initial_state\<lparr>input := ''hi''\<rparr>)) \<noteq> []"
    by (simp add: trim_hi)
  show ?thesis
    using h handleSubmit_one_post_two_messages [OF h, of None "Resolved (JObj [(''response'', JStr ''hello'')])"]
    by (simp add: handleSubmit_def handleSubmit_sync_def handleSubmit_resume_def API_URL_def
        initial_state_def trim_hi Let_def)
qed

text \<open>
  A POST that succeeds with the body \<open>null\<close>: reading \<open>response.data.response\<close> throws
  inside the \<open>try\<close> block, and the assistant message appended is the text of the
  \<open>catch\<close> block, which is no field of the body.
\<close>

theorem null_body_counterexample:
  "read_response JNull = Inl TypeError
   \<and> appended (handleSubmit None (initial_state\<lparr>input := ''hi''\<rparr>) (Resolved JNull))
       = [\<lparr>role = ''user'', content = JStr ''hi''\<rparr>,
          \<lparr>role = ''assistant'',
           content = JStr ''I'm having trouble connecting to the AI service. Please try again later.''\<rparr>]
   \<and> JStr ''I'm having trouble connecting to the AI service. Please try again later.''
       \<noteq> response_field JNull"
  by (simp add: handleSubmit_def handleSubmit_sync_def handleSubmit_resume_def catch_finally_def
      initial_state_def trim_hi Let_def response_field_def)

text \<open>
  C4, amended: when the input trims to a non-empty text and the POST succeeds with a body
  \<open>d\<close> that is neither \<open>null\<close> nor \<open>undefined\<close>, the assistant message appended has as
  content exactly the \<open>response\<close> field of \<open>d\<close>, and it is appended after the user
  message that carries the submitted text. When that field is a string the message is
  rendered as the pieces of the string between its newlines, from which the string is
  recovered.
\<close>

theorem handleSubmit_success:
  assumes "trim (input s) \<noteq> []" and "d \<noteq> JNull" and "d \<noteq> JUndefined"
  shows "appended (handleSubmit env s (Resolved d))
           = [\<lparr>role = ''user'', content = JStr (trim (input s))\<rparr>,
              \<lparr>role = ''assistant'', content = response_field d\<rparr>]
     \<and> messages (run_effects (handleSubmit env s (Resolved d)) s)
           = messages s @
             [\<lparr>role = ''user'', content = JStr (trim (input s))\<rparr>,
              \<lparr>role = ''assistant'', content = response_field d\<rparr>]
     \<and> (response_field d = JStr t \<longrightarrow>
           render_content (content (last (messages (run_effects (handleSubmit env s (Resolved d)) s))))
             = Inr (split_newline t)
           \<and> join_newline (split_newline t) = t)"
proof -
  have r: "handleSubmit_resume (Resolved d)
             = [AppendMessage \<lparr>role = ''assistant'', content = response_field d\<rparr>, SetIsLoading False]"
    using assms(2,3) by (simp add: handleSubmit_resume_def read_response_field)
  have a: "appended (handleSubmit env s (Resolved d))
           = [\<lparr>role = ''user'', content = JStr (trim (input s))\<rparr>,
              \<lparr>role = ''assistant'', content = response_field d\<rparr>]"
    using assms(1) by (simp add: handleSubmit_def appended_append appended_sync r)
  have m: "messages (run_effects (handleSubmit env s (Resolved d)) s)
           = messages s @
             [\<lparr>role = ''user'', content = JStr (trim (input s))\<rparr>,
              \<lparr>role = ''assistant'', content = response_field d\<rparr>]"
    using assms(1) by (simp add: handleSubmit_def run_effects_append state_sync r)
  show ?thesis
    by (simp add: a m join_split_newline)
qed

theorem handleSubmit_success_witness:
  "trim (input (initial_state\<lparr>input := ''hi''\<rparr>)) \<noteq> []
   \<and> JObj [(''response'', JStr ''hello'')] \<noteq> JNull
   \<and> JObj [(''response'', JStr ''hello'')] \<noteq> JUndefined
   \<and> messages (run_effects (handleSubmit None (initial_state\<lparr>input := ''hi''\<rparr>)
                   (Resolved (JObj [(''response'', JStr ''hello'')])))
                 (initial_state\<lparr>input := ''hi''\<rparr>))
      = [\<lparr>role = ''user'', content = JStr ''hi''\<rparr>,
         \<lparr>role = ''assistant'', content = JStr ''hello''\<rparr>]
   \<and> response_field (JObj [(''response'', JStr ''hello'')]) = JStr ''hello''
   \<and> render_content (content (last (messages
          (run_effects (handleSubmit None (initial_state\<lparr>input := ''hi''\<rparr>)
                   (Resolved (JObj [(''response'', JStr ''hello'')])))
                 (initial_state\<lparr>input := ''hi''\<rparr>)))))
      = Inr [''hello'']"
proof -
  have h: "trim (input (initial_state\<lparr>input := ''hi''\<rparr>)) \<noteq> []"
    by (simp add: trim_hi)
  have n: "JObj [(''response'', JStr ''hello'')] \<noteq> JNull"
    and u: "JObj [(''response'', JStr ''hello'')] \<noteq> JUndefined"
    by simp_all
  show ?thesis
    using h handleSubmit_success [OF h n u, of None "''hello''"]
    by (simp add: response_field_def initial_state_def trim_hi)
qed

text \<open>
  C5: when the input trims to a non-empty text, the last thing \<open>handleSubmit\<close> does before
  it waits is to send the request; no request is sent earlier, and what it has done by
  then appends the trimmed input as a user message, resets the input to the empty
  string and sets the error to \<open>null\<close>.
\<close>

theorem handleSubmit_before_request:
  assumes "trim (input s) \<noteq> []"
  shows "last (handleSubmit_sync env s)
           = AxiosPost \<lparr>post_url = API_URL env @ ''/chat'',
                        post_data = \<lparr>message = trim (input s), model = ''mistral''\<rparr>\<rparr>
     \<and> posts (butlast (handleSubmit_sync env s)) = []
     \<and> run_effects (butlast (handleSubmit_sync env s)) s
           = \<lparr>messages = messages s @ [\<lparr>role = ''user'', content = JStr (trim (input s))\<rparr>],
              input = [], isLoading = True, error = None\<rparr>"
  using assms by (simp add: handleSubmit_sync_def Let_def)

theorem handleSubmit_before_request_witness:
  "trim (input \<lparr>messages = [], input = '' hi '', isLoading = False, error = Some ''old''\<rparr>) \<noteq> []
   \<and> run_effects
        (butlast (handleSubmit_sync None
           \<lparr>messages = [], input = '' hi '', isLoading = False, error = Some ''old''\<rparr>))
        \<lparr>messages = [], input = '' hi '', isLoading = False, error = Some ''old''\<rparr>
      = \<lparr>messages = [\<lparr>role = ''user'', content = JStr ''hi''\<rparr>],
         input = [], isLoading = True, error = None\<rparr>"
proof -
  have h: "trim (input \<lparr>messages = [], input = '' hi '', isLoading = False, error = Some ''old''\<rparr>) \<noteq> []"
    by (simp add: trim_padded)
  show ?thesis
    using h handleSubmit_before_request [OF h, of None]
    by (simp add: trim_padded)
qed

text \<open>
  C9: when the input trims to the empty string, \<open>handleSubmit\<close> returns right after
  \<open>e.preventDefault()\<close>: it issues no HTTP request and leaves the messages, the input,
  the error and \<open>isLoading\<close> as they were.
\<close>

theorem handleSubmit_blank_input:
  assumes "trim (input s) = []"
  shows "handleSubmit env s oc = [PreventDefault]
     \<and> posts (handleSubmit env s oc) = []
     \<and> run_effects (handleSubmit env s oc) s = s"
  using assms by (simp add: handleSubmit_def handleSubmit_sync_def)

theorem handleSubmit_blank_input_witness:
  "trim (input (initial_state\<lparr>input := ''  ''\<rparr>)) = []
   \<and> posts (handleSubmit None (initial_state\<lparr>input := ''  ''\<rparr>) (Rejected (AxiosError ''Network Error''))) = []
   \<and> run_effects (handleSubmit None (initial_state\<lparr>input := ''  ''\<rparr>) (Rejected (AxiosError ''Network Error'')))
        (initial_state\<lparr>input := ''  ''\<rparr>)
      = \<lparr>messages = [], input = ''  '', isLoading = False, error = None\<rparr>"
proof -
  have h: "trim (input (initial_state\<lparr>input := ''  ''\<rparr>)) = []"
    by (simp add: trim_blank)
  show ?thesis
    using h handleSubmit_blank_input [OF h, of None "Rejected (AxiosError ''Network Error'')"]
    by (simp add: initial_state_def)
qed

subsection \<open>Invariants of the transition system\<close>

lemma state_sync_render:
  "run_effects (handleSubmit_sync env r) u =
     (if trim (input r) = [] then u
      else \<lparr>messages = messages u @ [\<lparr>role = ''user'', content = JStr (trim (input r))\<rparr>],
            input = [], isLoading = True, error = None\<rparr>)"
  by (simp add: handleSubmit_sync_def Let_def)

lemma step_pending:
  assumes "step env e p = Some p'"
    and "length (pending p) = (if isLoading (ui p) then 1 else 0)"
    and "e = Submit \<Longrightarrow> pending p = []"
  shows "length (pending p') = (if isLoading (ui p') then 1 else 0)"
proof (cases e)
  case Render
  with assms show ?thesis by auto
next
  case (Change v)
  with assms show ?thesis by auto
next
  case Submit
  with assms(3) have nil: "pending p = []" by simp
  with assms(2) have idle: "\<not> isLoading (ui p)"
    by (auto split: if_splits)
  from Submit assms(1)
  have p': "p' = p\<lparr>ui := run_effects (handleSubmit_sync env (rendered p)) (ui p),
                   pending := pending p @ posts (handleSubmit_sync env (rendered p))\<rparr>"
    by simp
  show ?thesis
    using idle nil by (simp add: p' state_sync_render posts_sync)
next
  case Clear
  with assms show ?thesis
    by (auto simp: handleClear_def)
next
  case (Settle i oc)
  with assms have lt: "i < length (pending p)"
    and p': "p' = p\<lparr>ui := run_effects (handleSubmit_resume oc) (ui p),
                    pending := take i (pending p) @ drop (Suc i) (pending p)\<rparr>"
    by (auto split: if_splits)
  from lt assms(2) have "length (pending p) = 1" and "i = 0"
    by (auto split: if_splits)
  then show ?thesis
    by (simp add: p' resume_isLoading)
qed

lemma run_pending:
  assumes G: "\<And>q. G Submit q \<Longrightarrow> length (pending q) = (if isLoading (ui q) then 1 else 0)
                 \<Longrightarrow> pending q = []"
  shows "run env evs p = Some p' \<Longrightarrow> guarded G env evs p
     \<Longrightarrow> length (pending p) = (if isLoading (ui p) then 1 else 0)
     \<Longrightarrow> length (pending p') = (if isLoading (ui p') then 1 else 0)"
proof (induction evs arbitrary: p)
  case Nil
  then show ?case by simp
next
  case (Cons e evs)
  from Cons.prems(1) obtain q where q: "step env e p = Some q" and r: "run env evs q = Some p'"
    by (auto split: option.splits)
  from Cons.prems(2) q have g: "G e p" and gs: "guarded G env evs q"
    by simp_all
  have "e = Submit \<Longrightarrow> pending p = []"
    using g G Cons.prems(3) by blast
  then have "length (pending q) = (if isLoading (ui q) then 1 else 0)"
    using step_pending [OF q Cons.prems(3)] by blast
  then show ?case
    using Cons.IH [OF r gs] by blast
qed

lemma fresh_submit_idle:
  assumes "fresh_submit Submit q"
    and "length (pending q) = (if isLoading (ui q) then 1 else 0)"
  shows "pending q = []"
proof -
  from assms(1) have "isLoading (rendered q) = isLoading (ui q)"
    and "user_can_submit (rendered q)"
    by (simp_all add: fresh_submit_def)
  then have "\<not> isLoading (ui q)"
    by (auto simp: user_can_submit_def input_disabled_def send_disabled_def)
  with assms(2) show ?thesis by simp
qed

lemma initial_page_pending:
  "length (pending initial_page) = (if isLoading (ui initial_page) then 1 else 0)"
  by (simp add: initial_page_def initial_state_def)

lemma alternates_snoc:
  "alternates ms \<Longrightarrow> role a = ''user'' \<Longrightarrow> role b = ''assistant'' \<Longrightarrow> alternates (ms @ [a, b])"
  by (induction ms rule: alternates.induct) simp_all

lemma alternates_even: "alternates ms \<Longrightarrow> even (length ms)"
  by (induction ms rule: alternates.induct) simp_all

lemma alternates_index:
  "alternates ms \<Longrightarrow> i < length ms \<Longrightarrow> role (ms ! i) = (if even i then ''user'' else ''assistant'')"
proof (induction ms arbitrary: i rule: alternates.induct)
  case 1
  then show ?case by simp
next
  case (2 m)
  then show ?case by simp
next
  case (3 m m' ms)
  show ?case
  proof (cases i)
    case 0
    with 3 show ?thesis by simp
  next
    case (Suc j)
    note j = this
    show ?thesis
    proof (cases j)
      case 0
      with j 3 show ?thesis by simp
    next
      case (Suc k)
      with j 3 show ?thesis by simp
    qed
  qed
qed

lemma alternates_counts:
  "alternates ms \<Longrightarrow>
     length (filter (\<lambda>m. role m = ''user'') ms) = length (filter (\<lambda>m. role m = ''assistant'') ms)"
  by (induction ms rule: alternates.induct) simp_all

text \<open>
  Two submissions from one render, both through the Send button that is enabled in it:
  the second \<open>handleSubmit\<close> runs before the page has been rendered with \<open>isLoading\<close>
  true, and two requests are outstanding.
\<close>

theorem double_submit_counterexample:
  "run None [Change ''hi'', Render, Submit, Submit] initial_page
     = Some \<lparr>rendered = \<lparr>messages = [], input = ''hi'', isLoading = False, error = None\<rparr>,
              ui = \<lparr>messages = [\<lparr>role = ''user'', content = JStr ''hi''\<rparr>,
                                \<lparr>role = ''user'', content = JStr ''hi''\<rparr>],
                    input = [], isLoading = True, error = None\<rparr>,
              pending = [\<lparr>post_url = ''http://localhost:8000/api/chat'',
                          post_data = \<lparr>message = ''hi'', model = ''mistral''\<rparr>\<rparr>,
                         \<lparr>post_url = ''http://localhost:8000/api/chat'',
                          post_data = \<lparr>message = ''hi'', model = ''mistral''\<rparr>\<rparr>]\<rparr>
   \<and> guarded enabled_submit None [Change ''hi'', Render, Submit, Submit] initial_page"
  by (simp add: initial_page_def initial_state_def enabled_submit_def user_can_submit_def
      input_disabled_def send_disabled_def handleSubmit_sync_def API_URL_def trim_hi Let_def)

text \<open>
  C6, amended: while \<open>isLoading\<close> is true in the state from which the page is rendered,
  the text input and the Send button are both disabled, so that a user cannot submit
  the form. In every run in which each submission comes through an enabled control of a
  page that was rendered with the current value of \<open>isLoading\<close>, at most one request
  is outstanding at any point, \<open>isLoading\<close> is true exactly while one is, and no such
  submission can take place while it is.
\<close>

theorem single_request_in_flight:
  assumes "run env evs initial_page = Some p"
    and "guarded fresh_submit env evs initial_page"
  shows "length (pending p) \<le> 1
     \<and> (isLoading (ui p) \<longleftrightarrow> pending p \<noteq> [])
     \<and> (isLoading s \<longrightarrow> input_disabled s \<and> send_disabled s \<and> \<not> user_can_submit s)
     \<and> (isLoading (ui p) \<longrightarrow> \<not> fresh_submit Submit p)"
proof -
  have "length (pending p) = (if isLoading (ui p) then 1 else 0)"
    using run_pending [where G = fresh_submit, OF fresh_submit_idle assms initial_page_pending] .
  then show ?thesis
    by (cases "isLoading (ui p)")
      (auto simp: input_disabled_def send_disabled_def user_can_submit_def fresh_submit_def)
qed

theorem single_request_in_flight_witness:
  "run None [Change ''hi'', Render, Submit] initial_page
     = Some \<lparr>rendered = \<lparr>messages = [], input = ''hi'', isLoading = False, error = None\<rparr>,
              ui = \<lparr>messages = [\<lparr>role = ''user'', content = JStr ''hi''\<rparr>],
                    input = [], isLoading = True, error = None\<rparr>,
              pending = [\<lparr>post_url = ''http://localhost:8000/api/chat'',
                          post_data = \<lparr>message = ''hi'', model = ''mistral''\<rparr>\<rparr>]\<rparr>
   \<and> guarded fresh_submit None [Change ''hi'', Render, Submit] initial_page
   \<and> \<not> fresh_submit Submit
        \<lparr>rendered = \<lparr>messages = [], input = ''hi'', isLoading = False, error = None\<rparr>,
          ui = \<lparr>messages = [\<lparr>role = ''user'', content = JStr ''hi''\<rparr>],
                input = [], isLoading = True, error = None\<rparr>,
          pending = [\<lparr>post_url = ''http://localhost:8000/api/chat'',
                      post_data = \<lparr>message = ''hi'', model = ''mistral''\<rparr>\<rparr>]\<rparr>"
proof -
  have h: "run None [Change ''hi'', Render, Submit] initial_page
     = Some \<lparr>rendered = \<lparr>messages = [], input = ''hi'', isLoading = False, error = None\<rparr>,
              ui = \<lparr>messages = [\<lparr>role = ''user'', content = JStr ''hi''\<rparr>],
                    input = [], isLoading = True, error = None\<rparr>,
              pending = [\<lparr>post_url = ''http://localhost:8000/api/chat'',
                          post_data = \<lparr>message = ''hi'', model = ''mistral''\<rparr>\<rparr>]\<rparr>"
    by (simp add: initial_page_def initial_state_def handleSubmit_sync_def API_URL_def trim_hi Let_def)
  have g: "guarded fresh_submit None [Change ''hi'', Render, Submit] initial_page"
    by (simp add: initial_page_def initial_state_def fresh_submit_def user_can_submit_def
        input_disabled_def send_disabled_def handleSubmit_sync_def API_URL_def trim_hi Let_def)
  show ?thesis
    using h g single_request_in_flight [OF h g]
    by simp
qed

text \<open>
  Clear Chat is clicked while a request is outstanding: the user message is removed,
  and the response then appends an assistant message to the empty list. Both handlers
  have finished and no request is outstanding; the list has one entry, of role
  \<open>assistant\<close>. And two submissions from one render, with no click on Clear Chat: once
  both requests have settled the roles are \<open>user\<close>, \<open>user\<close>, \<open>assistant\<close>,
  \<open>assistant\<close>.
\<close>

theorem overlapping_handlers_counterexample:
  "run None [Change ''hi'', Render, Submit, Clear,
             Settle 0 (Resolved (JObj [(''response'', JStr ''hello'')]))] initial_page
     = Some \<lparr>rendered = \<lparr>messages = [], input = ''hi'', isLoading = False, error = None\<rparr>,
              ui = \<lparr>messages = [\<lparr>role = ''assistant'', content = JStr ''hello''\<rparr>],
                    input = [], isLoading = False, error = None\<rparr>,
              pending = []\<rparr>
   \<and> \<not> alternates [\<lparr>role = ''assistant'', content = JStr ''hello''\<rparr>]
   \<and> role ([\<lparr>role = ''assistant'', content = JStr ''hello''\<rparr>] ! 0) \<noteq> ''user''
   \<and> odd (length [\<lparr>role = ''assistant'', content = JStr ''hello''\<rparr>])
   \<and> run None [Change ''hi'', Render, Submit, Submit,
                Settle 0 (Resolved (JObj [(''response'', JStr ''hello'')])),
                Settle 0 (Resolved (JObj [(''response'', JStr ''hello'')]))] initial_page
     = Some \<lparr>rendered = \<lparr>messages = [], input = ''hi'', isLoading = False, error = None\<rparr>,
              ui = \<lparr>messages = [\<lparr>role = ''user'', content = JStr ''hi''\<rparr>,
                                \<lparr>role = ''user'', content = JStr ''hi''\<rparr>,
                                \<lparr>role = ''assistant'', content = JStr ''hello''\<rparr>,
                                \<lparr>role = ''assistant'', content = JStr ''hello''\<rparr>],
                    input = [], isLoading = False, error = None\<rparr>,
              pending = []\<rparr>
   \<and> \<not> alternates [\<lparr>role = ''user'', content = JStr ''hi''\<rparr>,
                     \<lparr>role = ''user'', content = JStr ''hi''\<rparr>,
                     \<lparr>role = ''assistant'', content = JStr ''hello''\<rparr>,
                     \<lparr>role = ''assistant'', content = JStr ''hello''\<rparr>]"
  by (simp add: initial_page_def initial_state_def
      handleSubmit_sync_def handleSubmit_resume_def handleClear_def API_URL_def trim_hi Let_def)

lemma step_alternates:
  assumes "step env e p = Some p'"
    and "length (pending p) = (if isLoading (ui p) then 1 else 0)"
    and "one_at_a_time e p"
    and "if pending p = [] then alternates (messages (ui p))
         else \<exists>ms m. messages (ui p) = ms @ [m] \<and> role m = ''user'' \<and> alternates ms"
  shows "if pending p' = [] then alternates (messages (ui p'))
         else \<exists>ms m. messages (ui p') = ms @ [m] \<and> role m = ''user'' \<and> alternates ms"
proof (cases e)
  case Render
  with assms show ?thesis by auto
next
  case (Change v)
  with assms show ?thesis by auto
next
  case Submit
  with assms(3) have nil: "pending p = []"
    by (simp add: one_at_a_time_def)
  from Submit assms(1)
  have p': "p' = p\<lparr>ui := run_effects (handleSubmit_sync env (rendered p)) (ui p),
                   pending := pending p @ posts (handleSubmit_sync env (rendered p))\<rparr>"
    by simp
  show ?thesis
    using nil assms(4) by (simp add: p' state_sync_render posts_sync)
next
  case Clear
  with assms(3) have nil: "pending p = []"
    by (simp add: one_at_a_time_def)
  from Clear assms(1) have p': "p' = p\<lparr>ui := run_effects handleClear (ui p)\<rparr>"
    by simp
  show ?thesis
    using nil by (simp add: p' handleClear_def)
next
  case (Settle i oc)
  with assms have lt: "i < length (pending p)"
    and p': "p' = p\<lparr>ui := run_effects (handleSubmit_resume oc) (ui p),
                    pending := take i (pending p) @ drop (Suc i) (pending p)\<rparr>"
    by (auto split: if_splits)
  from lt assms(2) have one: "length (pending p) = 1" and i: "i = 0"
    by (auto split: if_splits)
  from one have "pending p \<noteq> []" by auto
  with assms(4) obtain ms m where ms: "messages (ui p) = ms @ [m]" "role m = ''user''" "alternates ms"
    by auto
  obtain c where c: "messages (run_effects (handleSubmit_resume oc) (ui p)) =
      messages (ui p) @ [\<lparr>role = ''assistant'', content = c\<rparr>]"
    using resume_messages [of oc "ui p"] by auto
  have alt: "alternates (ms @ [m, \<lparr>role = ''assistant'', content = c\<rparr>])"
    using ms by (intro alternates_snoc) simp_all
  have "pending p' = []"
    using one i by (simp add: p')
  moreover have "messages (ui p') = ms @ [m, \<lparr>role = ''assistant'', content = c\<rparr>]"
    by (simp add: p' c ms)
  ultimately show ?thesis
    using alt by simp
qed

lemma run_alternates:
  "run env evs p = Some p' \<Longrightarrow> guarded one_at_a_time env evs p
     \<Longrightarrow> length (pending p) = (if isLoading (ui p) then 1 else 0)
     \<Longrightarrow> (if pending p = [] then alternates (messages (ui p))
          else \<exists>ms m. messages (ui p) = ms @ [m] \<and> role m = ''user'' \<and> alternates ms)
     \<Longrightarrow> (if pending p' = [] then alternates (messages (ui p'))
          else \<exists>ms m. messages (ui p') = ms @ [m] \<and> role m = ''user'' \<and> alternates ms)"
proof (induction evs arbitrary: p)
  case Nil
  then have "p' = p" by simp
  with Nil.prems(4) show ?case by simp
next
  case (Cons e evs)
  from Cons.prems(1) obtain q where q: "step env e p = Some q" and r: "run env evs q = Some p'"
    by (auto split: option.splits)
  from Cons.prems(2) q have g: "one_at_a_time e p" and gs: "guarded one_at_a_time env evs q"
    by simp_all
  have s: "e = Submit \<Longrightarrow> pending p = []"
    using g by (simp add: one_at_a_time_def)
  have "length (pending q) = (if isLoading (ui q) then 1 else 0)"
    using step_pending [OF q Cons.prems(3) s] .
  moreover have "if pending q = [] then alternates (messages (ui q))
         else \<exists>ms m. messages (ui q) = ms @ [m] \<and> role m = ''user'' \<and> alternates ms"
    using step_alternates [OF q Cons.prems(3) g Cons.prems(4)] .
  ultimately show ?case
    using Cons.IH [OF r gs] by blast
qed

lemma initial_page_alternates:
  "if pending initial_page = [] then alternates (messages (ui initial_page))
   else \<exists>ms m. messages (ui initial_page) = ms @ [m] \<and> role m = ''user'' \<and> alternates ms"
  by (simp add: initial_page_def initial_state_def)

text \<open>
  C7, amended: starting from the initial empty message list, after every sequence of
  completed \<open>handleSubmit\<close> and \<open>handleClear\<close> operations in which neither is invoked
  while a request is outstanding, the roles of the message list alternate \<open>user\<close>,
  \<open>assistant\<close>, ... beginning with \<open>user\<close>, the list has even length, and it holds as
  many user messages as assistant messages.
\<close>

theorem messages_alternate_when_idle:
  assumes "run env evs initial_page = Some p"
    and "guarded one_at_a_time env evs initial_page"
    and "pending p = []"
  shows "(\<forall>i < length (messages (ui p)).
            role (messages (ui p) ! i) = (if even i then ''user'' else ''assistant''))
     \<and> even (length (messages (ui p)))
     \<and> length (filter (\<lambda>m. role m = ''user'') (messages (ui p)))
         = length (filter (\<lambda>m. role m = ''assistant'') (messages (ui p)))"
proof -
  have "alternates (messages (ui p))"
    using run_alternates [OF assms(1,2) initial_page_pending initial_page_alternates] assms(3)
    by simp
  then show ?thesis
    using alternates_index alternates_even alternates_counts by blast
qed

theorem messages_alternate_when_idle_witness:
  "run None [Change ''hi'', Render, Submit, Render,
      Settle 0 (Rejected (AxiosError ''Network Error'')), Render, Clear,
      Change ''yo'', Render, Submit, Render,
      Settle 0 (Resolved (JObj [(''response'', JStr ''hello'')])), Render] initial_page = Some \<lparr>rendered = \<lparr>messages = [\<lparr>role = ''user'', content = JStr ''yo''\<rparr>,
                                   \<lparr>role = ''assistant'', content = JStr ''hello''\<rparr>],
                       input = [], isLoading = False, error = None\<rparr>,
           ui = \<lparr>messages = [\<lparr>role = ''user'', content = JStr ''yo''\<rparr>,
                             \<lparr>role = ''assistant'', content = JStr ''hello''\<rparr>],
                 input = [], isLoading = False, error = None\<rparr>,
           pending = []\<rparr>
   \<and> guarded one_at_a_time None [Change ''hi'', Render, Submit, Render,
      Settle 0 (Rejected (AxiosError ''Network Error'')), Render, Clear,
      Change ''yo'', Render, Submit, Render,
      Settle 0 (Resolved (JObj [(''response'', JStr ''hello'')])), Render] initial_page
   \<and> even (length [\<lparr>role = ''user'', content = JStr ''yo''\<rparr>,
                    \<lparr>role = ''assistant'', content = JStr ''hello''\<rparr>])"
proof -
  have t: "trim ''yo'' = ''yo''"
    by (simp add: trim_def isWhiteSpace_def)
  have r: "run None [Change ''hi'', Render, Submit, Render,
      Settle 0 (Rejected (AxiosError ''Network Error'')), Render, Clear,
      Change ''yo'', Render, Submit, Render,
      Settle 0 (Resolved (JObj [(''response'', JStr ''hello'')])), Render] initial_page = Some \<lparr>rendered = \<lparr>messages = [\<lparr>role = ''user'', content = JStr ''yo''\<rparr>,
                                   \<lparr>role = ''assistant'', content = JStr ''hello''\<rparr>],
                       input = [], isLoading = False, error = None\<rparr>,
           ui = \<lparr>messages = [\<lparr>role = ''user'', content = JStr ''yo''\<rparr>,
                             \<lparr>role = ''assistant'', content = JStr ''hello''\<rparr>],
                 input = [], isLoading = False, error = None\<rparr>,
           pending = []\<rparr>"
    by (simp add: initial_page_def initial_state_def
        handleSubmit_sync_def handleSubmit_resume_def catch_finally_def handleClear_def
        API_URL_def trim_hi t Let_def)
  have c: "guarded one_at_a_time None [Change ''hi'', Render, Submit, Render,
      Settle 0 (Rejected (AxiosError ''Network Error'')), Render, Clear,
      Change ''yo'', Render, Submit, Render,
      Settle 0 (Resolved (JObj [(''response'', JStr ''hello'')])), Render] initial_page"
    by (simp add: initial_page_def initial_state_def one_at_a_time_def
        handleSubmit_sync_def handleSubmit_resume_def catch_finally_def handleClear_def
        API_URL_def trim_hi t Let_def)
  have i: "pending \<lparr>rendered = \<lparr>messages = [\<lparr>role = ''user'', content = JStr ''yo''\<rparr>,
                                   \<lparr>role = ''assistant'', content = JStr ''hello''\<rparr>],
                       input = [], isLoading = False, error = None\<rparr>,
           ui = \<lparr>messages = [\<lparr>role = ''user'', content = JStr ''yo''\<rparr>,
                             \<lparr>role = ''assistant'', content = JStr ''hello''\<rparr>],
                 input = [], isLoading = False, error = None\<rparr>,
           pending = []\<rparr> = []"
    by simp
  show ?thesis
    using r c messages_alternate_when_idle [OF r c i]
    by simp
qed

end
